theory Spec2Isabelle
  imports Main
begin

section \<open>Python values and exceptions\<close>

text \<open>
  The script \<^verbatim>\<open>script/parseswe.py\<close> turns a list of benchmark instance identifiers into
  one shell script per instance and one aggregate script.  Python strings are modelled as
  \<^typ>\<open>string\<close> (lists of 8-bit characters, i.e. Python strings over code points below
  256).  Every exception the code can raise is a value of \<open>error\<close>; a computation that
  may raise returns \<open>error + 'a\<close>, with \<open>Inl\<close> for the exception.
\<close>

datatype error =
    KeyError string
  | IndexError string
  | ValueError string
  | TypeError string
  | AttributeError string

text \<open>Characters that have no spelling inside an Isabelle string literal.\<close>

definition squote :: string where
  "squote = [CHR 0x27]"

definition backslash :: string where
  "backslash = [CHR 0x5C]"

section \<open>\<^verbatim>\<open>str.format(**kwargs)\<close>\<close>

text \<open>
  Both substitutions of \<^verbatim>\<open>create_scripts\<close> are calls \<^verbatim>\<open>template.format(**format_dict)\<close>
  with no positional arguments and a dictionary of strings.  The model follows the format
  string syntax of the language reference as CPython implements it: the template is read
  left to right, one character at a time; literal text is copied, \<^verbatim>\<open>{{\<close> and \<^verbatim>\<open>}}\<close> stand for
  a brace, and a replacement field \<^verbatim>\<open>{field_name!conversion:format_spec}\<close> is rendered as soon
  as its closing brace is read, so that the first error in reading order is the one raised.

  What the Python runtime does with a looked-up string beyond inserting it (attribute and
  index access, a conversion, a non-empty format specification) is not part of this
  repository; it is a parameter of the model, a record of two functions.  Every theorem
  below holds for every such runtime.
\<close>

type_synonym format_dict = "string \<rightharpoonup> string"

record py_runtime =
  field_access :: "string \<Rightarrow> string \<Rightarrow> char option \<Rightarrow> error + (string \<Rightarrow> error + string)"
  str_format_spec :: "string \<Rightarrow> string \<Rightarrow> error + string"

text \<open>
  \<open>field_access rt v rest conv\<close>: the object reached from the string \<open>v\<close> by the accessors
  \<open>rest\<close> (\<^verbatim>\<open>.attr\<close>, \<^verbatim>\<open>[index]\<close>) and the conversion \<open>conv\<close>, given by its \<^verbatim>\<open>__format__\<close>
  method, or the exception raised on the way.  \<open>str_format_spec rt v spec\<close>:
  \<^verbatim>\<open>format(v, spec)\<close> for a string \<open>v\<close> and a non-empty \<open>spec\<close>.
\<close>

definition PY_SSIZE_T_MAX :: nat where
  "PY_SSIZE_T_MAX = 9223372036854775807"

definition todecimal :: "char \<Rightarrow> nat option" where
  "todecimal c =
     (if (48::nat) \<le> of_char c \<and> of_char c \<le> (57::nat) then Some (of_char c - 48) else None)"

text \<open>
  \<^verbatim>\<open>get_integer\<close>: the value of a field name that is a decimal number, \<open>None\<close> when it is
  not one; the overflow check is made digit by digit, before the next character is read.
\<close>

fun get_integer_from :: "nat \<Rightarrow> string \<Rightarrow> error + nat option" where
  "get_integer_from acc [] = Inr (Some acc)"
| "get_integer_from acc (c # cs) =
     (case todecimal c of
        None \<Rightarrow> Inr None
      | Some dv \<Rightarrow>
          if acc > (PY_SSIZE_T_MAX - dv) div 10
          then Inl (ValueError ''Too many decimal digits in format string'')
          else get_integer_from (acc * 10 + dv) cs)"

definition get_integer :: "string \<Rightarrow> error + nat option" where
  "get_integer s = (if s = [] then Inr None else get_integer_from 0 s)"

text \<open>\<^verbatim>\<open>str(n)\<close> for a non-negative integer, as the error message prints it.\<close>

fun str_nat :: "nat \<Rightarrow> string" where
  "str_nat n =
     (if n < 10 then [''0123456789'' ! n]
      else str_nat (n div 10) @ [''0123456789'' ! (n mod 10)])"

declare str_nat.simps [simp del]

text \<open>
  \<^verbatim>\<open>field_name_split\<close>: the part of a field name before the first \<^verbatim>\<open>.\<close> or \<^verbatim>\<open>[\<close> selects the
  argument; the remainder is the accessor chain.
\<close>

definition is_accessor_start :: "char \<Rightarrow> bool" where
  "is_accessor_start c = (c = CHR ''.'' \<or> c = CHR ''['')"

definition field_name_split :: "string \<Rightarrow> string \<times> string" where
  "field_name_split name =
     (takeWhile (\<lambda>c. \<not> is_accessor_start c) name,
      dropWhile (\<lambda>c. \<not> is_accessor_start c) name)"

text \<open>
  \<^verbatim>\<open>output_markup\<close>: render one replacement field.  The argument is looked up first: an
  empty or numeric name indexes the positional arguments, of which \<^verbatim>\<open>format(**d)\<close> has
  none; any other name is a key of the dictionary.  Then accessors and conversion are
  applied, then a format specification containing \<^verbatim>\<open>{\<close> is expanded (\<open>expand\<close>), then the
  object is formatted.  A string with no accessor, no conversion and an empty
  specification is inserted as it is.
\<close>

definition output_markup ::
  "(string \<Rightarrow> error + string) \<Rightarrow> py_runtime \<Rightarrow> format_dict \<Rightarrow>
   string \<Rightarrow> char option \<Rightarrow> string \<Rightarrow> error + string" where
  "output_markup expand rt d name conv spec =
     (case field_name_split name of (first, rest) \<Rightarrow>
      (case get_integer first of
         Inl e \<Rightarrow> Inl e
       | Inr idx \<Rightarrow>
          if first = [] \<or> idx \<noteq> None
          then Inl (IndexError (''Replacement index '' @ str_nat (case idx of None \<Rightarrow> 0 | Some i \<Rightarrow> i)
                                @ '' out of range for positional args tuple''))
          else
            (case d first of
               None \<Rightarrow> Inl (KeyError first)
             | Some v \<Rightarrow>
                (case (if rest = [] \<and> conv = None
                       then Inr (\<lambda>sp. if sp = [] then Inr v else str_format_spec rt v sp)
                       else field_access rt v rest conv) of
                   Inl e \<Rightarrow> Inl e
                 | Inr fmt \<Rightarrow>
                    (case (if CHR ''{'' \<in> set spec then expand spec else Inr spec) of
                       Inl e \<Rightarrow> Inl e
                     | Inr spec' \<Rightarrow> fmt spec')))))"

text \<open>
  The reader's state: where it is in the template, and the output so far.
\<close>

datatype mode =
    Literal
  | LBrace
  | RBrace
  | FieldName string
  | FieldIndex string
  | Conversion string
  | AfterConversion string char
  | FormatSpec string "char option" nat string

type_synonym markup_state = "mode \<times> string"

definition field_done ::
  "(string \<Rightarrow> error + string) \<Rightarrow> py_runtime \<Rightarrow> format_dict \<Rightarrow>
   string \<Rightarrow> char option \<Rightarrow> string \<Rightarrow> string \<Rightarrow> error + markup_state" where
  "field_done expand rt d name conv spec out =
     (case output_markup expand rt d name conv spec of
        Inl e \<Rightarrow> Inl e
      | Inr s \<Rightarrow> Inr (Literal, out @ s))"

definition field_name_char ::
  "(string \<Rightarrow> error + string) \<Rightarrow> py_runtime \<Rightarrow> format_dict \<Rightarrow>
   string \<Rightarrow> string \<Rightarrow> char \<Rightarrow> error + markup_state" where
  "field_name_char expand rt d name out c =
     (if c = CHR ''{'' then Inl (ValueError (''unexpected '' @ squote @ ''{'' @ squote @ '' in field name''))
      else if c = CHR ''['' then Inr (FieldIndex (name @ [c]), out)
      else if c = CHR ''}'' then field_done expand rt d name None [] out
      else if c = CHR '':'' then Inr (FormatSpec name None 1 [], out)
      else if c = CHR ''!'' then Inr (Conversion name, out)
      else Inr (FieldName (name @ [c]), out))"

fun markup_step ::
  "(string \<Rightarrow> error + string) \<Rightarrow> py_runtime \<Rightarrow> format_dict \<Rightarrow>
   markup_state \<Rightarrow> char \<Rightarrow> error + markup_state" where
  "markup_step expand rt d (Literal, out) c =
     (if c = CHR ''{'' then Inr (LBrace, out)
      else if c = CHR ''}'' then Inr (RBrace, out)
      else Inr (Literal, out @ [c]))"
| "markup_step expand rt d (LBrace, out) c =
     (if c = CHR ''{'' then Inr (Literal, out @ [c])
      else field_name_char expand rt d [] out c)"
| "markup_step expand rt d (RBrace, out) c =
     (if c = CHR ''}'' then Inr (Literal, out @ [c])
      else Inl (ValueError (''Single '' @ squote @ ''}'' @ squote @ '' encountered in format string'')))"
| "markup_step expand rt d (FieldName name, out) c = field_name_char expand rt d name out c"
| "markup_step expand rt d (FieldIndex name, out) c =
     (if c = CHR '']'' then Inr (FieldName (name @ [c]), out)
      else Inr (FieldIndex (name @ [c]), out))"
| "markup_step expand rt d (Conversion name, out) c = Inr (AfterConversion name c, out)"
| "markup_step expand rt d (AfterConversion name cv, out) c =
     (if c = CHR ''}'' then field_done expand rt d name (Some cv) [] out
      else if c = CHR '':'' then Inr (FormatSpec name (Some cv) 1 [], out)
      else Inl (ValueError (''expected '' @ squote @ '':'' @ squote @ '' after conversion specifier'')))"
| "markup_step expand rt d (FormatSpec name conv k spec, out) c =
     (if c = CHR ''{'' then Inr (FormatSpec name conv (Suc k) (spec @ [c]), out)
      else if c = CHR ''}'' then
        (if k = 1 then field_done expand rt d name conv spec out
         else Inr (FormatSpec name conv (k - 1) (spec @ [c]), out))
      else Inr (FormatSpec name conv k (spec @ [c]), out))"

fun markup_end :: "markup_state \<Rightarrow> error + string" where
  "markup_end (Literal, out) = Inr out"
| "markup_end (LBrace, out) =
     Inl (ValueError (''Single '' @ squote @ ''{'' @ squote @ '' encountered in format string''))"
| "markup_end (RBrace, out) =
     Inl (ValueError (''Single '' @ squote @ ''}'' @ squote @ '' encountered in format string''))"
| "markup_end (FieldName name, out) =
     Inl (ValueError (''expected '' @ squote @ ''}'' @ squote @ '' before end of string''))"
| "markup_end (FieldIndex name, out) =
     Inl (ValueError (''expected '' @ squote @ ''}'' @ squote @ '' before end of string''))"
| "markup_end (Conversion name, out) =
     Inl (ValueError ''end of string while looking for conversion specifier'')"
| "markup_end (AfterConversion name cv, out) =
     Inl (ValueError (''unmatched '' @ squote @ ''{'' @ squote @ '' in format spec''))"
| "markup_end (FormatSpec name conv k spec, out) =
     Inl (ValueError (''unmatched '' @ squote @ ''{'' @ squote @ '' in format spec''))"

fun markup_scan ::
  "(string \<Rightarrow> error + string) \<Rightarrow> py_runtime \<Rightarrow> format_dict \<Rightarrow>
   markup_state \<Rightarrow> string \<Rightarrow> error + markup_state" where
  "markup_scan expand rt d st [] = Inr st"
| "markup_scan expand rt d st (c # cs) =
     (case markup_step expand rt d st c of
        Inl e \<Rightarrow> Inl e
      | Inr st' \<Rightarrow> markup_scan expand rt d st' cs)"

definition do_markup ::
  "(string \<Rightarrow> error + string) \<Rightarrow> py_runtime \<Rightarrow> format_dict \<Rightarrow> string \<Rightarrow> error + string" where
  "do_markup expand rt d s =
     (case markup_scan expand rt d (Literal, []) s of
        Inl e \<Rightarrow> Inl e
      | Inr st \<Rightarrow> markup_end st)"

text \<open>
  \<^verbatim>\<open>build_string\<close>: a format specification may itself contain replacement fields, one level
  deep; \<^verbatim>\<open>str.format\<close> starts at recursion depth 2.
\<close>

primrec build_string :: "nat \<Rightarrow> py_runtime \<Rightarrow> format_dict \<Rightarrow> string \<Rightarrow> error + string" where
  "build_string 0 rt d s = Inl (ValueError ''Max string recursion exceeded'')"
| "build_string (Suc depth) rt d s = do_markup (build_string depth rt d) rt d s"

definition str_format :: "py_runtime \<Rightarrow> string \<Rightarrow> format_dict \<Rightarrow> error + string" where
  "str_format rt template d = build_string 2 rt d template"

section \<open>The program: data\<close>

text \<open>
  The parsed command line (\<^verbatim>\<open>args\<close> of \<^verbatim>\<open>main\<close>), a job as \<^verbatim>\<open>compute_jobs\<close> builds it, and
  the names imported from the module \<^verbatim>\<open>dzyswe\<close>, which is not part of the source given and is
  taken as a parameter: the catalog \<^verbatim>\<open>sweall\<close> (a dictionary of dictionaries), and the
  functions \<^verbatim>\<open>repopath\<close> and \<^verbatim>\<open>reponame\<close>, which may raise.
\<close>

record args =
  instance_ids :: "string list"
  outdir :: string
  command :: string
  parallel :: bool

record job =
  instance_id :: string
  repo_path :: string
  commit :: string

record dzyswe =
  sweall :: "string \<rightharpoonup> (string \<rightharpoonup> string)"
  repopath :: "string \<Rightarrow> error + string"
  reponame :: "string \<Rightarrow> error + string"

text \<open>
  What the program does to the outside world, in the order it does it.  A
  \<^verbatim>\<open>with open(path, "w") as f\<close> block is one \<open>WriteFile\<close> holding everything written before
  the block was left, normally or by an exception.  The calls themselves are taken to
  succeed.
\<close>

datatype effect =
    Makedirs string
  | WriteFile string string
  | Chmod string nat
  | Print string

definition SCRIPT_TEMPLATE :: string where
  "SCRIPT_TEMPLATE =
     ''#!/bin/bash\<newline>'' @
     ''set -e\<newline>'' @
     ''# jedi caching\<newline>'' @
     ''export XDG_CACHE_HOME={outdir}/{instance_id}\<newline>'' @
     ''rm -rf {outdir}/{instance_id}/repo\<newline>'' @
     ''git clone {repo_path} {outdir}/{instance_id}/repo\<newline>'' @
     ''cd {outdir}/{instance_id}/repo\<newline>'' @
     ''git checkout {commit}\<newline>'' @
     ''cd -\<newline>'' @
     ''echo Logs for {instance_id} is at {outdir}/{instance_id}/log.txt\<newline>'' @
     ''( {command} ) > {outdir}/{instance_id}/log.txt 2>&1\<newline>''"

definition INCLUDE :: "string \<rightharpoonup> string" where
  "INCLUDE =
     [''flask'' \<mapsto> ''src'',
      ''matplotlib'' \<mapsto> ''lib/matplotlib'',
      ''pytest'' \<mapsto> ''src'',
      ''astropy'' \<mapsto> ''astropy'',
      ''scikit-learn'' \<mapsto> ''sklearn'',
      ''seaborn'' \<mapsto> ''seaborn'',
      ''sympy'' \<mapsto> ''sympy'',
      ''django'' \<mapsto> ''django'',
      ''pylint'' \<mapsto> ''pylint'',
      ''requests'' \<mapsto> ''src'',
      ''sphinx'' \<mapsto> ''sphinx'',
      ''xarray'' \<mapsto> ''xarray'']"

definition pylsp_template :: string where
  "pylsp_template =
     ''./abcoder parse python {repo_path} -verbose -o {outdir}/{instance_id}.json'' @
     '' -include {include_path} -lsp-cache-path {outdir}/{instance_id}/lsp_cache.json''"

definition jedi_template :: string where
  "jedi_template =
     ''./abcoder parse python {repo_path} -verbose -o {outdir}/{instance_id}.json'' @
     '' -include {include_path} -lsp-cache-path {outdir}/{instance_id}/lsp_cache.json'' @
     '' -lsp jedi-language-server -lsp-flags '' @ squote @
     ''--log-file {outdir}/{instance_id}/lsp.log -v'' @ squote"

definition DEFAULT_COMMAND_TEMPLATES :: "string \<rightharpoonup> string" where
  "DEFAULT_COMMAND_TEMPLATES = [''pylsp'' \<mapsto> pylsp_template, ''jedi'' \<mapsto> jedi_template]"

text \<open>\<^verbatim>\<open>d.get(key, default)\<close>\<close>

definition dict_get :: "('k \<rightharpoonup> 'v) \<Rightarrow> 'k \<Rightarrow> 'v \<Rightarrow> 'v" where
  "dict_get d k dflt = (case d k of None \<Rightarrow> dflt | Some v \<Rightarrow> v)"

text \<open>\<^verbatim>\<open>os.path.join(a, b)\<close> of \<^verbatim>\<open>posixpath\<close>, for two components.\<close>

definition os_path_join :: "string \<Rightarrow> string \<Rightarrow> string" where
  "os_path_join a b =
     (if (b \<noteq> [] \<and> hd b = CHR ''/'') \<or> a = [] then b
      else if last a = CHR ''/'' then a @ b
      else a @ ''/'' @ b)"

section \<open>The program: functions\<close>

text \<open>\<^verbatim>\<open>compute_jobs\<close>: the loop, with the list \<^verbatim>\<open>jobs\<close> built so far.\<close>

fun compute_jobs_loop :: "dzyswe \<Rightarrow> string list \<Rightarrow> job list \<Rightarrow> error + job list" where
  "compute_jobs_loop E [] jobs = Inr jobs"
| "compute_jobs_loop E (i # ids) jobs =
     (case sweall E i of
        None \<Rightarrow> Inl (KeyError i)
      | Some info \<Rightarrow>
         (case info ''base_commit'' of
            None \<Rightarrow> Inl (KeyError ''base_commit'')
          | Some base_commit \<Rightarrow>
             (case repopath E i of
                Inl e \<Rightarrow> Inl e
              | Inr rp \<Rightarrow>
                 compute_jobs_loop E ids
                   (jobs @ [\<lparr>instance_id = i, repo_path = rp, commit = base_commit\<rparr>]))))"

definition compute_jobs :: "dzyswe \<Rightarrow> args \<Rightarrow> error + job list" where
  "compute_jobs E a = compute_jobs_loop E (instance_ids a) []"

text \<open>The dictionary of lines 64 to 70, before the key \<^verbatim>\<open>command\<close> is added.\<close>

definition format_dict_of :: "args \<Rightarrow> job \<Rightarrow> string \<Rightarrow> format_dict" where
  "format_dict_of a j include_path =
     [''repo_path'' \<mapsto> repo_path j,
      ''commit'' \<mapsto> commit j,
      ''include_path'' \<mapsto> include_path,
      ''instance_id'' \<mapsto> instance_id j,
      ''outdir'' \<mapsto> outdir a]"

text \<open>One iteration of the loop of \<^verbatim>\<open>create_scripts\<close>: its effects, and the script path.\<close>

definition create_script ::
  "py_runtime \<Rightarrow> dzyswe \<Rightarrow> args \<Rightarrow> job \<Rightarrow> effect list \<times> (error + string)" where
  "create_script rt E a j =
     (let instance_dir = os_path_join (outdir a) (instance_id j) in
      case reponame E (instance_id j) of
        Inl e \<Rightarrow> ([], Inl e)
      | Inr family \<Rightarrow>
         (case INCLUDE family of
            None \<Rightarrow> ([], Inl (KeyError family))
          | Some include_path \<Rightarrow>
             (let script_path = os_path_join instance_dir ''main.sh'';
                  format_dict = format_dict_of a j include_path;
                  cmd = dict_get DEFAULT_COMMAND_TEMPLATES (command a) (command a)
              in case str_format rt cmd format_dict of
                   Inl e \<Rightarrow> ([Makedirs instance_dir], Inl e)
                 | Inr c \<Rightarrow>
                    (case str_format rt SCRIPT_TEMPLATE (format_dict(''command'' \<mapsto> c)) of
                       Inl e \<Rightarrow> ([Makedirs instance_dir, WriteFile script_path []], Inl e)
                     | Inr text \<Rightarrow>
                        ([Makedirs instance_dir, WriteFile script_path text,
                          Chmod script_path 493],
                         Inr script_path)))))"

fun create_scripts_loop ::
  "py_runtime \<Rightarrow> dzyswe \<Rightarrow> args \<Rightarrow> job list \<Rightarrow> string list \<Rightarrow>
   effect list \<times> (error + string list)" where
  "create_scripts_loop rt E a [] scripts = ([], Inr scripts)"
| "create_scripts_loop rt E a (j # jobs) scripts =
     (case create_script rt E a j of
        (effs, Inl e) \<Rightarrow> (effs, Inl e)
      | (effs, Inr script_path) \<Rightarrow>
         (case create_scripts_loop rt E a jobs (scripts @ [script_path]) of
            (effs', r) \<Rightarrow> (effs @ effs', r)))"

definition create_scripts ::
  "py_runtime \<Rightarrow> dzyswe \<Rightarrow> args \<Rightarrow> job list \<Rightarrow> effect list \<times> (error + string list)" where
  "create_scripts rt E a jobs = create_scripts_loop rt E a jobs []"

text \<open>
  \<^verbatim>\<open>create_top_script\<close>.  \<^verbatim>\<open>scripts[:-1]\<close> is \<open>butlast\<close>; \<^verbatim>\<open>scripts[-1]\<close> raises on the empty
  list, inside the \<^verbatim>\<open>with\<close> block, after the lines before it were written.
\<close>

definition top_script_path :: "args \<Rightarrow> string" where
  "top_script_path a = outdir a @ ''/run_all.sh''"

definition create_top_script :: "args \<Rightarrow> string list \<Rightarrow> effect list \<times> (error + unit)" where
  "create_top_script a scripts =
     (let header = ''#!/bin/bash\<newline>set -e\<newline>'';
          done = [Chmod (top_script_path a) 493,
                  Print (''To run all jobs, execute: ./'' @ outdir a @ ''/run_all.sh'')]
      in if parallel a then
           (let written = header @ ''echo Executing in parallel mode...\<newline>'' @
                  ''parallel ::: '' @ backslash @ ''\<newline>'' @
                  concat (map (\<lambda>script. ''./'' @ script @ '' '' @ backslash @ ''\<newline>'')
                            (butlast scripts))
            in if scripts = []
               then ([WriteFile (top_script_path a) written],
                     Inl (IndexError ''list index out of range''))
               else (WriteFile (top_script_path a)
                       (written @ ''./'' @ last scripts @ ''\<newline>'') # done,
                     Inr ()))
         else
           (WriteFile (top_script_path a)
              (header @ concat (map (\<lambda>script. ''./'' @ script @ ''\<newline>'') scripts)) # done,
            Inr ()))"

definition main :: "py_runtime \<Rightarrow> dzyswe \<Rightarrow> args \<Rightarrow> effect list \<times> (error + unit)" where
  "main rt E a =
     (case compute_jobs E a of
        Inl e \<Rightarrow> ([], Inl e)
      | Inr jobs \<Rightarrow>
         (case create_scripts rt E a jobs of
            (effs, Inl e) \<Rightarrow> (effs, Inl e)
          | (effs, Inr scripts) \<Rightarrow>
             (case create_top_script a scripts of
                (effs', r) \<Rightarrow> (effs @ effs', r))))"

section \<open>Reference texts and example inputs\<close>

text \<open>\<^verbatim>\<open>sep.join(xs)\<close>, used to state what the aggregate script lists.\<close>

fun str_join :: "string \<Rightarrow> string list \<Rightarrow> string" where
  "str_join sep [] = []"
| "str_join sep [x] = x"
| "str_join sep (x # y # ys) = x @ sep @ str_join sep (y # ys)"

text \<open>Command lines used as examples: sequential and parallel runs into \<^verbatim>\<open>sweout\<close>.\<close>

definition args_seq :: args where
  "args_seq = \<lparr>instance_ids = [''django__django-11099'', ''sympy__sympy-20590''],
               outdir = ''sweout'', command = ''jedi'', parallel = False\<rparr>"

definition args_par :: args where
  "args_par = args_seq\<lparr>parallel := True\<rparr>"

text \<open>
  The replacement fields the theorems speak about: a field name made of ordinary characters
  only (none of \<^verbatim>\<open>{ } [ : ! .\<close>), so that the field has no accessor, no conversion and no
  format specification; and such a name that is a keyword (not empty, not starting with a
  decimal digit), as opposed to a positional index.
\<close>

definition plain_chars :: "string \<Rightarrow> bool" where
  "plain_chars n = list_all (\<lambda>c. c \<notin> set ''{}[:!.'') n"

definition plain_name :: "string \<Rightarrow> bool" where
  "plain_name n = (n \<noteq> [] \<and> todecimal (hd n) = None \<and> plain_chars n)"

text \<open>Putting output already produced in front of a reader's result.\<close>

definition with_prefix :: "string \<Rightarrow> error + markup_state \<Rightarrow> error + markup_state" where
  "with_prefix out r = (case r of Inl e \<Rightarrow> Inl e | Inr (m, out') \<Rightarrow> Inr (m, out @ out'))"

text \<open>
  The text of \<^verbatim>\<open>SCRIPT_TEMPLATE\<close> with its placeholders filled in, line by line: the values of
  \<^verbatim>\<open>outdir\<close>, \<^verbatim>\<open>instance_id\<close>, \<^verbatim>\<open>repo_path\<close>, \<^verbatim>\<open>commit\<close> and \<^verbatim>\<open>command\<close>.
\<close>

definition isolation_script :: "string \<Rightarrow> string \<Rightarrow> string \<Rightarrow> string \<Rightarrow> string \<Rightarrow> string" where
  "isolation_script od iid rp cm cmd =
     ''#!/bin/bash\<newline>'' @
     ''set -e\<newline>'' @
     ''# jedi caching\<newline>'' @
     ''export XDG_CACHE_HOME='' @ od @ ''/'' @ iid @ ''\<newline>'' @
     ''rm -rf '' @ od @ ''/'' @ iid @ ''/repo\<newline>'' @
     ''git clone '' @ rp @ '' '' @ od @ ''/'' @ iid @ ''/repo\<newline>'' @
     ''cd '' @ od @ ''/'' @ iid @ ''/repo\<newline>'' @
     ''git checkout '' @ cm @ ''\<newline>'' @
     ''cd -\<newline>'' @
     ''echo Logs for '' @ iid @ '' is at '' @ od @ ''/'' @ iid @ ''/log.txt\<newline>'' @
     ''( '' @ cmd @ '' ) > '' @ od @ ''/'' @ iid @ ''/log.txt 2>&1\<newline>''"

text \<open>The command lines the two registered templates render to.\<close>

definition pylsp_command :: "string \<Rightarrow> string \<Rightarrow> string \<Rightarrow> string \<Rightarrow> string" where
  "pylsp_command od iid rp inc =
     ''./abcoder parse python '' @ rp @ '' -verbose -o '' @ od @ ''/'' @ iid @ ''.json'' @
     '' -include '' @ inc @ '' -lsp-cache-path '' @ od @ ''/'' @ iid @ ''/lsp_cache.json''"

definition jedi_command :: "string \<Rightarrow> string \<Rightarrow> string \<Rightarrow> string \<Rightarrow> string" where
  "jedi_command od iid rp inc =
     pylsp_command od iid rp inc @
     '' -lsp jedi-language-server -lsp-flags '' @ squote @
     ''--log-file '' @ od @ ''/'' @ iid @ ''/lsp.log -v'' @ squote"

text \<open>
  An identifier is valid when every lookup made for it succeeds: it is in the catalog with
  a \<^verbatim>\<open>base_commit\<close>, \<^verbatim>\<open>repopath\<close> returns, and \<^verbatim>\<open>reponame\<close> returns a family of the include table.
\<close>

definition valid_identifier :: "dzyswe \<Rightarrow> string \<Rightarrow> bool" where
  "valid_identifier E i =
     ((case sweall E i of
         None \<Rightarrow> False
       | Some info \<Rightarrow> info ''base_commit'' \<noteq> None) \<and>
      (case repopath E i of Inl e \<Rightarrow> False | Inr rp \<Rightarrow> True) \<and>
      (case reponame E i of Inl e \<Rightarrow> False | Inr family \<Rightarrow> INCLUDE family \<noteq> None))"

text \<open>The paths \<^verbatim>\<open>create_scripts\<close> computes for an identifier.\<close>

definition instance_dir_of :: "args \<Rightarrow> string \<Rightarrow> string" where
  "instance_dir_of a i = os_path_join (outdir a) i"

definition script_path_of :: "args \<Rightarrow> string \<Rightarrow> string" where
  "script_path_of a i = os_path_join (os_path_join (outdir a) i) ''main.sh''"

text \<open>
  An example of the imported module: a catalog of three instances, repositories under
  \<^verbatim>\<open>/repos\<close>, and the family of an identifier read off before its first underscore.  The
  family \<^verbatim>\<open>acme\<close> is not in the include table.  The example runtime is never reached by
  the examples: their templates have plain fields only.
\<close>

definition dz_example :: dzyswe where
  "dz_example =
     \<lparr>sweall = [''django__django-11099'' \<mapsto> [''base_commit'' \<mapsto> ''d26b242''],
                ''sympy__sympy-20590'' \<mapsto> [''base_commit'' \<mapsto> ''cffd4e0''],
                ''acme__acme-1'' \<mapsto> [''base_commit'' \<mapsto> ''0a1b2c3'']],
      repopath = (\<lambda>i. Inr (''/repos/'' @ i)),
      reponame = (\<lambda>i. Inr (takeWhile (\<lambda>c. c \<noteq> CHR ''_'') i))\<rparr>"

definition rt_example :: py_runtime where
  "rt_example =
     \<lparr>field_access = (\<lambda>v rest conv. Inl (AttributeError rest)),
      str_format_spec = (\<lambda>v spec. Inl (ValueError spec))\<rparr>"

definition job_django :: job where
  "job_django = \<lparr>instance_id = ''django__django-11099'',
                  repo_path = ''/repos/django__django-11099'', commit = ''d26b242''\<rparr>"

definition job_sympy :: job where
  "job_sympy = \<lparr>instance_id = ''sympy__sympy-20590'',
                 repo_path = ''/repos/sympy__sympy-20590'', commit = ''cffd4e0''\<rparr>"

text \<open>
  Command lines with a literal template: one that mentions \<^verbatim>\<open>{commit}\<close> and an escaped pair of
  braces, and one that mentions a placeholder no dictionary has.
\<close>

definition args_echo :: args where
  "args_echo = args_seq\<lparr>command := ''echo {commit} {{x}}''\<rparr>"

definition args_nope :: args where
  "args_nope = args_seq\<lparr>command := ''echo {nope} {commit}''\<rparr>"

text \<open>
  The effects of one successful iteration of \<^verbatim>\<open>create_scripts\<close>, for an identifier and the
  script text written for it: \<^verbatim>\<open>os.makedirs\<close>, the file, and \<^verbatim>\<open>os.chmod(script_path, 0o755)\<close>.
\<close>

definition job_effects :: "args \<Rightarrow> string \<times> string \<Rightarrow> effect list" where
  "job_effects a = (\<lambda>(i, text).
     [Makedirs (instance_dir_of a i), WriteFile (script_path_of a i) text,
      Chmod (script_path_of a i) 493])"

text \<open>
  Two more command lines: one whose second identifier has a family outside the include
  table, and one whose second identifier is not in the catalog.
\<close>

definition args_acme :: args where
  "args_acme = args_seq\<lparr>instance_ids := [''django__django-11099'', ''acme__acme-1'']\<rparr>"

definition args_unknown :: args where
  "args_unknown = args_seq\<lparr>instance_ids := [''django__django-11099'', ''nosuch__id-7'']\<rparr>"

definition job_acme :: job where
  "job_acme = \<lparr>instance_id = ''acme__acme-1'',
                repo_path = ''/repos/acme__acme-1'', commit = ''0a1b2c3''\<rparr>"








section \<open>Properties of the aggregate script and of the template registry\<close>

lemma concat_butlast_join:
  "xs \<noteq> [] \<Longrightarrow>
   concat (map (\<lambda>x. f x @ sep) (butlast xs)) @ f (last xs) = str_join sep (map f xs)"
proof (induction xs)
  case Nil
  then show ?case by simp
next
  case (Cons x xs)
  show ?case
  proof (cases xs)
    case Nil
    then show ?thesis by simp
  next
    case (Cons y ys)
    with Cons.IH show ?thesis by simp
  qed
qed

text \<open>
  C4.  Template resolution, \<^verbatim>\<open>DEFAULT_COMMAND_TEMPLATES.get(args.command, args.command)\<close>:
  a registered short name (\<^verbatim>\<open>pylsp\<close>, \<^verbatim>\<open>jedi\<close>) gives the registered template, every other
  string is returned unchanged; the lookup has no error result, so no string is rejected.
\<close>

theorem resolve_template:
  "dict_get DEFAULT_COMMAND_TEMPLATES c c =
     (if c = ''pylsp'' then pylsp_template else if c = ''jedi'' then jedi_template else c)"
  by (simp add: dict_get_def DEFAULT_COMMAND_TEMPLATES_def)

theorem resolve_template_witness:
  "dict_get DEFAULT_COMMAND_TEMPLATES ''jedi'' ''jedi'' = jedi_template \<and>
   dict_get DEFAULT_COMMAND_TEMPLATES ''pylsp'' ''pylsp'' = pylsp_template \<and>
   dict_get DEFAULT_COMMAND_TEMPLATES ''echo {commit}'' ''echo {commit}'' = ''echo {commit}''"
  using resolve_template [of "''jedi''"] resolve_template [of "''pylsp''"]
    resolve_template [of "''echo {commit}''"]
  by simp

text \<open>
  C7.  In sequential mode the aggregate script is the interpreter line and the fail-fast
  directive \<^verbatim>\<open>set -e\<close>, followed by one line \<^verbatim>\<open>./<path>\<close> per script path in the order of
  the list; the file is then given mode \<^verbatim>\<open>0o755\<close> (493) and its path is printed.
\<close>

theorem sequential_top_script:
  "\<not> parallel a \<Longrightarrow>
   create_top_script a scripts =
     ([WriteFile (outdir a @ ''/run_all.sh'')
         (''#!/bin/bash\<newline>'' @ ''set -e\<newline>'' @
          concat (map (\<lambda>path. ''./'' @ path @ ''\<newline>'') scripts)),
       Chmod (outdir a @ ''/run_all.sh'') 493,
       Print (''To run all jobs, execute: ./'' @ outdir a @ ''/run_all.sh'')],
      Inr ())"
  by (simp add: create_top_script_def top_script_path_def Let_def)

theorem sequential_top_script_witness:
  "create_top_script args_seq [''A'', ''B'', ''C''] =
     ([WriteFile ''sweout/run_all.sh''
         ''#!/bin/bash\<newline>set -e\<newline>./A\<newline>./B\<newline>./C\<newline>'',
       Chmod ''sweout/run_all.sh'' 493,
       Print ''To run all jobs, execute: ./sweout/run_all.sh''],
      Inr ())"
  using sequential_top_script [of args_seq "[''A'', ''B'', ''C'']"]
  by (simp add: args_seq_def)

text \<open>
  C8.  In parallel mode, for a non-empty list of script paths, the aggregate script is
  the interpreter line, the fail-fast directive \<^verbatim>\<open>set -e\<close>, an announcement, and one
  invocation \<^verbatim>\<open>parallel :::\<close> with no option (so no limit on the number of jobs), continued
  over the following lines, which list \<^verbatim>\<open>./<path>\<close> for every script path in the order of the
  list, joined by a backslash and a line break.
\<close>

theorem parallel_top_script:
  "parallel a \<Longrightarrow> scripts \<noteq> [] \<Longrightarrow>
   create_top_script a scripts =
     ([WriteFile (outdir a @ ''/run_all.sh'')
         (''#!/bin/bash\<newline>'' @ ''set -e\<newline>'' @
          ''echo Executing in parallel mode...\<newline>'' @
          ''parallel ::: '' @ backslash @ ''\<newline>'' @
          str_join ('' '' @ backslash @ ''\<newline>'') (map (\<lambda>path. ''./'' @ path) scripts) @
          ''\<newline>''),
       Chmod (outdir a @ ''/run_all.sh'') 493,
       Print (''To run all jobs, execute: ./'' @ outdir a @ ''/run_all.sh'')],
      Inr ())"
  using concat_butlast_join [of scripts "\<lambda>path. ''./'' @ path" "'' '' @ backslash @ ''\<newline>''"]
  by (simp add: create_top_script_def top_script_path_def Let_def)

theorem parallel_top_script_witness:
  "create_top_script args_par [''A'', ''B'', ''C''] =
     ([WriteFile ''sweout/run_all.sh''
         (''#!/bin/bash\<newline>set -e\<newline>echo Executing in parallel mode...\<newline>'' @
          ''parallel ::: '' @ backslash @ ''\<newline>'' @
          ''./A '' @ backslash @ ''\<newline>'' @
          ''./B '' @ backslash @ ''\<newline>'' @
          ''./C\<newline>''),
       Chmod ''sweout/run_all.sh'' 493,
       Print ''To run all jobs, execute: ./sweout/run_all.sh''],
      Inr ())"
  using parallel_top_script [of args_par "[''A'', ''B'', ''C'']"]
  by (simp add: args_par_def args_seq_def)

section \<open>Properties of \<^verbatim>\<open>str.format\<close>\<close>

lemma with_prefix_simps [simp]:
  "with_prefix out (Inl e) = Inl e"
  "with_prefix out (Inr (m, out')) = Inr (m, out @ out')"
  by (simp_all add: with_prefix_def)

lemma with_prefix_Nil [simp]: "with_prefix [] r = r"
  by (cases r) (auto simp: with_prefix_def)

lemma field_done_prefix:
  "field_done ex rt d n cv sp out = with_prefix out (field_done ex rt d n cv sp [])"
  by (simp add: field_done_def split: sum.splits)

lemma field_name_char_prefix:
  "field_name_char ex rt d n out c = with_prefix out (field_name_char ex rt d n [] c)"
  using field_done_prefix[of ex rt d n None "[]" out]
  by (simp add: field_name_char_def)

lemma markup_step_prefix:
  "markup_step ex rt d (m, out) c = with_prefix out (markup_step ex rt d (m, []) c)"
proof (cases m)
  case LBrace
  then show ?thesis using field_name_char_prefix[of ex rt d "[]" out c] by simp
next
  case (FieldName n)
  then show ?thesis using field_name_char_prefix[of ex rt d n out c] by simp
next
  case (AfterConversion n cv)
  then show ?thesis using field_done_prefix[of ex rt d n "Some cv" "[]" out] by simp
next
  case (FormatSpec n cv k sp)
  then show ?thesis using field_done_prefix[of ex rt d n cv sp out] by simp
qed simp_all

lemma markup_scan_prefix:
  "markup_scan ex rt d (m, out) s = with_prefix out (markup_scan ex rt d (m, []) s)"
proof (induction s arbitrary: m out)
  case Nil
  then show ?case by simp
next
  case (Cons c s)
  show ?case
  proof (cases "markup_step ex rt d (m, []) c")
    case (Inl e)
    then show ?thesis using markup_step_prefix[of ex rt d m out c] by simp
  next
    case (Inr st)
    obtain m' o' where st: "st = (m', o')" by (cases st)
    have 1: "markup_step ex rt d (m, out) c = Inr (m', out @ o')"
      using markup_step_prefix[of ex rt d m out c] Inr st by simp
    show ?thesis
      using Cons.IH[of m' "out @ o'"] Cons.IH[of m' o'] 1 Inr st
      by (cases "markup_scan ex rt d (m', []) s") (auto simp: with_prefix_def)
  qed
qed

lemma markup_scan_append:
  "markup_scan ex rt d st (s1 @ s2) =
     (case markup_scan ex rt d st s1 of Inl e \<Rightarrow> Inl e | Inr st' \<Rightarrow> markup_scan ex rt d st' s2)"
  by (induction s1 arbitrary: st) (auto split: sum.splits)

lemma markup_end_Inr: "markup_end st = Inr x \<longleftrightarrow> st = (Literal, x)"
  by (cases st rule: markup_end.cases) auto

lemma do_markup_Inr:
  "do_markup ex rt d s = Inr x \<longleftrightarrow> markup_scan ex rt d (Literal, []) s = Inr (Literal, x)"
  by (auto simp: do_markup_def markup_end_Inr split: sum.splits)

lemma do_markup_from:
  "(case markup_scan ex rt d (Literal, out) s of Inl e \<Rightarrow> Inl e | Inr st \<Rightarrow> markup_end st) =
   (case do_markup ex rt d s of Inl e \<Rightarrow> Inl e | Inr y \<Rightarrow> Inr (out @ y))"
proof (cases "markup_scan ex rt d (Literal, []) s")
  case (Inl e)
  then show ?thesis using markup_scan_prefix[of ex rt d Literal out s] by (simp add: do_markup_def)
next
  case (Inr st)
  obtain m' o' where st: "st = (m', o')" by (cases st)
  have "markup_scan ex rt d (Literal, out) s = Inr (m', out @ o')"
    using markup_scan_prefix[of ex rt d Literal out s] Inr st by simp
  then show ?thesis using Inr st by (cases m') (simp_all add: do_markup_def)
qed

lemma scan_field_name:
  "plain_chars n \<Longrightarrow>
   markup_scan ex rt d (FieldName acc, out) n = Inr (FieldName (acc @ n), out)"
  by (induction n arbitrary: acc) (auto simp: field_name_char_def plain_chars_def)

lemma scan_plain_field:
  assumes "plain_chars n"
  shows "markup_scan ex rt d (Literal, out) (''{'' @ n @ ''}'') = field_done ex rt d n None [] out"
proof (cases n)
  case Nil
  then show ?thesis by (simp add: field_name_char_def split: sum.splits)
next
  case (Cons c cs)
  from assms Cons have c: "c \<notin> set ''{}[:!.''" and cs: "plain_chars cs"
    by (auto simp: plain_chars_def)
  have 1: "markup_step ex rt d (LBrace, out) c = Inr (FieldName [c], out)"
    using c by (auto simp: field_name_char_def)
  have "markup_scan ex rt d (Literal, out) (''{'' @ n @ ''}'') =
        markup_scan ex rt d (FieldName [c], out) (cs @ ''}'')"
    using 1 Cons by simp
  also have "\<dots> = field_done ex rt d n None [] out"
    using scan_field_name[OF cs, of ex rt d "[c]" out] Cons
    by (simp add: markup_scan_append field_name_char_def split: sum.splits)
  finally show ?thesis .
qed

lemma get_integer_name: "n \<noteq> [] \<Longrightarrow> todecimal (hd n) = None \<Longrightarrow> get_integer n = Inr None"
  by (cases n) (simp_all add: get_integer_def)

lemma output_markup_plain:
  assumes "plain_name n"
  shows "output_markup ex rt d n None [] = (case d n of None \<Rightarrow> Inl (KeyError n) | Some v \<Rightarrow> Inr v)"
proof -
  have "\<forall>c \<in> set n. \<not> is_accessor_start c"
    using assms by (auto simp: plain_name_def plain_chars_def list_all_iff is_accessor_start_def)
  then have tw: "takeWhile (\<lambda>c. \<not> is_accessor_start c) n = n"
    and dw: "dropWhile (\<lambda>c. \<not> is_accessor_start c) n = []"
    by (simp_all add: takeWhile_eq_all_conv)
  have gi: "get_integer n = Inr None" and ne: "n \<noteq> []"
    using assms get_integer_name by (auto simp: plain_name_def)
  show ?thesis
    unfolding output_markup_def field_name_split_def tw dw
    using gi ne by (simp split: option.splits)
qed

lemma output_markup_missing:
  assumes "plain_chars n" "d n = None"
  shows "\<exists>e. output_markup ex rt d n None [] = Inl e"
proof -
  have "\<forall>c \<in> set n. \<not> is_accessor_start c"
    using assms(1) by (auto simp: plain_chars_def list_all_iff is_accessor_start_def)
  then have tw: "takeWhile (\<lambda>c. \<not> is_accessor_start c) n = n"
    and dw: "dropWhile (\<lambda>c. \<not> is_accessor_start c) n = []"
    by (simp_all add: takeWhile_eq_all_conv)
  show ?thesis
    unfolding output_markup_def field_name_split_def tw dw
    using assms(2) by (simp split: sum.splits)
qed

lemma str_format_field_gen:
  assumes a: "str_format rt a d = Inr x" and n: "plain_chars n"
  shows "str_format rt (a @ ''{'' @ n @ ''}'' @ b) d =
     (case output_markup (build_string (Suc 0) rt d) rt d n None [] of
        Inl e \<Rightarrow> Inl e
      | Inr v \<Rightarrow> (case str_format rt b d of Inl e \<Rightarrow> Inl e | Inr y \<Rightarrow> Inr (x @ v @ y)))"
proof -
  define ex where "ex = build_string (Suc 0) rt d"
  have sf: "\<And>s. str_format rt s d = do_markup ex rt d s"
    by (simp add: str_format_def ex_def numeral_2_eq_2)
  have sa: "markup_scan ex rt d (Literal, []) a = Inr (Literal, x)"
    using a by (simp add: sf do_markup_Inr)
  have split: "markup_scan ex rt d (Literal, []) (a @ (''{'' @ n @ ''}'') @ b) =
      (case field_done ex rt d n None [] x of Inl e \<Rightarrow> Inl e
       | Inr st' \<Rightarrow> markup_scan ex rt d st' b)"
    using sa scan_plain_field[OF n, of ex rt d x]
    by (simp only: markup_scan_append sum.case)
  have main: "do_markup ex rt d (a @ ''{'' @ n @ ''}'' @ b) =
     (case output_markup ex rt d n None [] of
        Inl e \<Rightarrow> Inl e
      | Inr v \<Rightarrow> (case do_markup ex rt d b of Inl e \<Rightarrow> Inl e | Inr y \<Rightarrow> Inr (x @ v @ y)))"
  proof (cases "output_markup ex rt d n None []")
    case (Inl e)
    then show ?thesis using split
      by (simp add: do_markup_def field_done_def)
  next
    case (Inr v)
    have "markup_scan ex rt d (Literal, []) (a @ (''{'' @ n @ ''}'') @ b) =
          markup_scan ex rt d (Literal, x @ v) b"
      using split Inr by (simp add: field_done_def)
    then show ?thesis
      using do_markup_from[of ex rt d "x @ v" b] Inr
      by (simp add: do_markup_def split: sum.splits)
  qed
  show ?thesis using main unfolding sf ex_def .
qed

lemma str_format_field:
  assumes a: "str_format rt a d = Inr x" and n: "plain_name n"
  shows "str_format rt (a @ ''{'' @ n @ ''}'' @ b) d =
     (case d n of
        None \<Rightarrow> Inl (KeyError n)
      | Some v \<Rightarrow> (case str_format rt b d of Inl e \<Rightarrow> Inl e | Inr y \<Rightarrow> Inr (x @ v @ y)))"
proof -
  have pc: "plain_chars n" using n by (simp add: plain_name_def)
  show ?thesis
    using str_format_field_gen[OF a pc, of b] output_markup_plain[OF n, of "build_string (Suc 0) rt d" rt d]
    by (simp split: option.splits)
qed

lemma str_format_literal:
  assumes "CHR ''{'' \<notin> set s" "CHR ''}'' \<notin> set s"
  shows "str_format rt s d = Inr s"
proof -
  have "\<And>out. CHR ''{'' \<notin> set s \<Longrightarrow> CHR ''}'' \<notin> set s \<Longrightarrow>
     markup_scan (build_string (Suc 0) rt d) rt d (Literal, out) s = Inr (Literal, out @ s)"
    by (induction s) auto
  from this[of "[]"] assms show ?thesis
    by (simp add: str_format_def numeral_2_eq_2 do_markup_def)
qed

section \<open>Properties of one iteration of \<^verbatim>\<open>create_scripts\<close>\<close>

lemmas field_eval = str_format_def numeral_2_eq_2 do_markup_def field_name_char_def field_done_def
  output_markup_plain plain_name_def plain_chars_def todecimal_def

lemma script_template_render:
  assumes "d ''outdir'' = Some od" "d ''instance_id'' = Some iid" "d ''repo_path'' = Some rp"
    "d ''commit'' = Some cm" "d ''command'' = Some cmd"
  shows "str_format rt SCRIPT_TEMPLATE d = Inr (isolation_script od iid rp cm cmd)"
  using assms by (simp add: field_eval SCRIPT_TEMPLATE_def isolation_script_def)

lemma pylsp_template_render:
  assumes "d ''outdir'' = Some od" "d ''instance_id'' = Some iid" "d ''repo_path'' = Some rp"
    "d ''include_path'' = Some inc"
  shows "str_format rt pylsp_template d = Inr (pylsp_command od iid rp inc)"
  using assms by (simp add: field_eval pylsp_template_def pylsp_command_def)

lemma jedi_template_render:
  assumes "d ''outdir'' = Some od" "d ''instance_id'' = Some iid" "d ''repo_path'' = Some rp"
    "d ''include_path'' = Some inc"
  shows "str_format rt jedi_template d = Inr (jedi_command od iid rp inc)"
  using assms
  by (simp add: field_eval jedi_template_def jedi_command_def pylsp_command_def squote_def)

lemma format_dict_of_simps:
  "format_dict_of a j inc ''outdir'' = Some (outdir a)"
  "format_dict_of a j inc ''instance_id'' = Some (instance_id j)"
  "format_dict_of a j inc ''repo_path'' = Some (repo_path j)"
  "format_dict_of a j inc ''commit'' = Some (commit j)"
  "format_dict_of a j inc ''include_path'' = Some inc"
  by (simp_all add: format_dict_of_def)

lemma format_dict_of_dom:
  "format_dict_of a j inc n = None \<longleftrightarrow>
     n \<notin> {''repo_path'', ''commit'', ''include_path'', ''instance_id'', ''outdir''}"
  by (simp add: format_dict_of_def)

lemma create_script_Inr:
  assumes "reponame E (instance_id j) = Inr family" "INCLUDE family = Some inc"
    "str_format rt (dict_get DEFAULT_COMMAND_TEMPLATES (command a) (command a))
       (format_dict_of a j inc) = Inr cmd"
  shows "create_script rt E a j =
     ([Makedirs (instance_dir_of a (instance_id j)),
       WriteFile (script_path_of a (instance_id j))
         (isolation_script (outdir a) (instance_id j) (repo_path j) (commit j) cmd),
       Chmod (script_path_of a (instance_id j)) 493],
      Inr (script_path_of a (instance_id j)))"
proof -
  have "str_format rt SCRIPT_TEMPLATE ((format_dict_of a j inc)(''command'' \<mapsto> cmd)) =
        Inr (isolation_script (outdir a) (instance_id j) (repo_path j) (commit j) cmd)"
    by (rule script_template_render) (simp_all add: format_dict_of_simps)
  then show ?thesis using assms
    by (simp add: create_script_def Let_def instance_dir_of_def script_path_of_def)
qed

lemma create_script_Inl:
  assumes "reponame E (instance_id j) = Inr family" "INCLUDE family = Some inc"
    "str_format rt (dict_get DEFAULT_COMMAND_TEMPLATES (command a) (command a))
       (format_dict_of a j inc) = Inl e"
  shows "create_script rt E a j = ([Makedirs (instance_dir_of a (instance_id j))], Inl e)"
  using assms by (simp add: create_script_def Let_def instance_dir_of_def)

lemma create_script_cases:
  assumes "create_script rt E a j = (effs, Inr p)"
  shows "\<exists>family inc cmd. reponame E (instance_id j) = Inr family \<and> INCLUDE family = Some inc \<and>
      str_format rt (dict_get DEFAULT_COMMAND_TEMPLATES (command a) (command a))
        (format_dict_of a j inc) = Inr cmd"
  using assms by (auto simp: create_script_def Let_def split: sum.splits option.splits)

lemma example_family:
  "reponame dz_example (instance_id job_django) = Inr ''django''"
  "INCLUDE ''django'' = Some ''django''"
  "reponame dz_example (instance_id job_sympy) = Inr ''sympy''"
  "INCLUDE ''sympy'' = Some ''sympy''"
  "reponame dz_example ''acme__acme-1'' = Inr ''acme''"
  "INCLUDE ''acme'' = None"
  by (simp_all add: dz_example_def job_django_def job_sympy_def INCLUDE_def)


lemma jedi_renders:
  "command a = ''jedi'' \<Longrightarrow>
   str_format rt (dict_get DEFAULT_COMMAND_TEMPLATES (command a) (command a))
     (format_dict_of a j inc) =
   Inr (jedi_command (outdir a) (instance_id j) (repo_path j) inc)"
  by (simp add: dict_get_def DEFAULT_COMMAND_TEMPLATES_def jedi_template_render format_dict_of_simps)

lemma pylsp_renders:
  "command a = ''pylsp'' \<Longrightarrow>
   str_format rt (dict_get DEFAULT_COMMAND_TEMPLATES (command a) (command a))
     (format_dict_of a j inc) =
   Inr (pylsp_command (outdir a) (instance_id j) (repo_path j) inc)"
  by (simp add: dict_get_def DEFAULT_COMMAND_TEMPLATES_def pylsp_template_render format_dict_of_simps)



section \<open>Properties of the substitution of the command\<close>

text \<open>
  C2.  Substitution is two-phase.  The command template is rendered against the job's
  dictionary of five keys first; the string it renders to is then the value of \<^verbatim>\<open>command\<close>
  in the rendering of the script skeleton, where it is inserted as it is (it is not read
  as a template again).  So a command template \<open>pre @ ''{commit}'' @ post\<close>, whose parts
  \<open>pre\<close> and \<open>post\<close> render to \<open>x\<close> and \<open>y\<close>, gives a script whose command line is
  \<open>x\<close>, the job's commit, and \<open>y\<close>: the placeholder is replaced by the commit hash.
\<close>

theorem two_phase_substitution:
  assumes "reponame E (instance_id j) = Inr family" and "INCLUDE family = Some inc"
  shows "(str_format rt (dict_get DEFAULT_COMMAND_TEMPLATES (command a) (command a))
            (format_dict_of a j inc) = Inr cmd \<longrightarrow>
          create_script rt E a j =
            ([Makedirs (instance_dir_of a (instance_id j)),
              WriteFile (script_path_of a (instance_id j))
                (isolation_script (outdir a) (instance_id j) (repo_path j) (commit j) cmd),
              Chmod (script_path_of a (instance_id j)) 493],
             Inr (script_path_of a (instance_id j)))) \<and>
         (dict_get DEFAULT_COMMAND_TEMPLATES (command a) (command a) = pre @ ''{commit}'' @ post \<and>
          str_format rt pre (format_dict_of a j inc) = Inr x \<and>
          str_format rt post (format_dict_of a j inc) = Inr y \<longrightarrow>
          create_script rt E a j =
            ([Makedirs (instance_dir_of a (instance_id j)),
              WriteFile (script_path_of a (instance_id j))
                (isolation_script (outdir a) (instance_id j) (repo_path j) (commit j)
                   (x @ commit j @ y)),
              Chmod (script_path_of a (instance_id j)) 493],
             Inr (script_path_of a (instance_id j))))"
proof (intro conjI impI)
  assume "str_format rt (dict_get DEFAULT_COMMAND_TEMPLATES (command a) (command a))
            (format_dict_of a j inc) = Inr cmd"
  then show "create_script rt E a j =
            ([Makedirs (instance_dir_of a (instance_id j)),
              WriteFile (script_path_of a (instance_id j))
                (isolation_script (outdir a) (instance_id j) (repo_path j) (commit j) cmd),
              Chmod (script_path_of a (instance_id j)) 493],
             Inr (script_path_of a (instance_id j)))"
    by (rule create_script_Inr[OF assms])
next
  assume h: "dict_get DEFAULT_COMMAND_TEMPLATES (command a) (command a) = pre @ ''{commit}'' @ post \<and>
          str_format rt pre (format_dict_of a j inc) = Inr x \<and>
          str_format rt post (format_dict_of a j inc) = Inr y"
  have pn: "plain_name ''commit''"
    by (simp add: plain_name_def plain_chars_def todecimal_def)
  have "str_format rt (pre @ ''{'' @ ''commit'' @ ''}'' @ post) (format_dict_of a j inc) =
        Inr (x @ commit j @ y)"
    using str_format_field[OF _ pn, of rt pre "format_dict_of a j inc" x post] h
    by (simp add: format_dict_of_simps)
  then have "str_format rt (dict_get DEFAULT_COMMAND_TEMPLATES (command a) (command a))
       (format_dict_of a j inc) = Inr (x @ commit j @ y)"
    using h by simp
  then show "create_script rt E a j =
            ([Makedirs (instance_dir_of a (instance_id j)),
              WriteFile (script_path_of a (instance_id j))
                (isolation_script (outdir a) (instance_id j) (repo_path j) (commit j)
                   (x @ commit j @ y)),
              Chmod (script_path_of a (instance_id j)) 493],
             Inr (script_path_of a (instance_id j)))"
    by (rule create_script_Inr[OF assms])
qed

lemma args_echo_simps:
  "outdir args_echo = ''sweout''" "command args_echo = ''echo {commit} {{x}}''"
  "instance_dir_of args_echo ''django__django-11099'' = ''sweout/django__django-11099''"
  "script_path_of args_echo ''django__django-11099'' = ''sweout/django__django-11099/main.sh''"
  "dict_get DEFAULT_COMMAND_TEMPLATES (command args_echo) (command args_echo) =
     ''echo '' @ ''{commit}'' @ '' {{x}}''"
  by (simp_all add: args_echo_def args_seq_def instance_dir_of_def script_path_of_def
      os_path_join_def dict_get_def DEFAULT_COMMAND_TEMPLATES_def)

lemma echo_parts:
  "str_format rt ''echo '' d = Inr ''echo ''"
  "str_format rt '' {{x}}'' d = Inr '' {x}''"
  by (simp_all add: field_eval)

theorem two_phase_substitution_witness:
  "create_script rt_example dz_example args_echo job_django =
     ([Makedirs ''sweout/django__django-11099'',
       WriteFile ''sweout/django__django-11099/main.sh''
         (isolation_script ''sweout'' ''django__django-11099'' ''/repos/django__django-11099''
            ''d26b242'' ''echo d26b242 {x}''),
       Chmod ''sweout/django__django-11099/main.sh'' 493],
      Inr ''sweout/django__django-11099/main.sh'')"
  using two_phase_substitution[OF example_family(1,2), of rt_example args_echo
      "''echo d26b242 {x}''" "''echo ''" "'' {{x}}''" "''echo ''" "'' {x}''"]
    args_echo_simps echo_parts
  by (simp add: job_django_def)

text \<open>
  C3.  A command template that reaches a replacement field \<^verbatim>\<open>{n}\<close> whose name is not one of the
  five keys of the job's dictionary (the text before it renders) makes the iteration for that
  job raise: a \<^verbatim>\<open>KeyError\<close> carrying the name when \<open>n\<close> is a keyword, an error of the
  positional lookup when \<open>n\<close> is empty or a number.  The only effect of the iteration is
  the creation of the job's directory: no script file is written for the job, and
  \<^verbatim>\<open>create_scripts\<close> stops there with the same error.
\<close>

theorem unresolvable_placeholder:
  assumes "reponame E (instance_id j) = Inr family" and "INCLUDE family = Some inc"
    and "dict_get DEFAULT_COMMAND_TEMPLATES (command a) (command a) = pre @ ''{'' @ n @ ''}'' @ post"
    and "str_format rt pre (format_dict_of a j inc) = Inr x"
    and "plain_chars n"
    and "n \<notin> {''repo_path'', ''commit'', ''include_path'', ''instance_id'', ''outdir''}"
  shows "\<exists>e. create_script rt E a j = ([Makedirs (instance_dir_of a (instance_id j))], Inl e) \<and>
           create_scripts rt E a (j # jobs) = ([Makedirs (instance_dir_of a (instance_id j))], Inl e) \<and>
           (plain_name n \<longrightarrow> e = KeyError n)"
proof -
  let ?d = "format_dict_of a j inc"
  have none: "?d n = None" using assms(6) by (simp add: format_dict_of_dom)
  obtain e0 where e0: "output_markup (build_string (Suc 0) rt ?d) rt ?d n None [] = Inl e0"
    using output_markup_missing[of n ?d "build_string (Suc 0) rt ?d" rt] assms(5) none by blast
  have f: "str_format rt (dict_get DEFAULT_COMMAND_TEMPLATES (command a) (command a)) ?d = Inl e0"
    using str_format_field_gen[OF assms(4,5), of post] e0 assms(3) by simp
  have cs: "create_script rt E a j = ([Makedirs (instance_dir_of a (instance_id j))], Inl e0)"
    by (rule create_script_Inl[OF assms(1,2) f])
  have k: "plain_name n \<longrightarrow> e0 = KeyError n"
    using output_markup_plain[of n "build_string (Suc 0) rt ?d" rt ?d] e0 none by auto
  show ?thesis using cs k by (auto simp: create_scripts_def)
qed

lemma args_nope_simps:
  "instance_dir_of args_nope ''django__django-11099'' = ''sweout/django__django-11099''"
  "dict_get DEFAULT_COMMAND_TEMPLATES (command args_nope) (command args_nope) =
     ''echo '' @ ''{'' @ ''nope'' @ ''}'' @ '' {commit}''"
  by (simp_all add: args_nope_def args_seq_def instance_dir_of_def
      os_path_join_def dict_get_def DEFAULT_COMMAND_TEMPLATES_def)

theorem unresolvable_placeholder_witness:
  "create_script rt_example dz_example args_nope job_django =
     ([Makedirs ''sweout/django__django-11099''], Inl (KeyError ''nope'')) \<and>
   create_scripts rt_example dz_example args_nope [job_django, job_sympy] =
     ([Makedirs ''sweout/django__django-11099''], Inl (KeyError ''nope''))"
proof -
  have pc: "plain_chars ''nope''" and pn: "plain_name ''nope''"
    by (simp_all add: plain_name_def plain_chars_def todecimal_def)
  have nk: "''nope'' \<notin> {''repo_path'', ''commit'', ''include_path'', ''instance_id'', ''outdir''}"
    by simp
  show ?thesis
    using unresolvable_placeholder[OF example_family(1,2) args_nope_simps(2) echo_parts(1) pc nk,
        of rt_example "[job_sympy]"] pn args_nope_simps(1)
    by (auto simp: job_django_def)
qed

section \<open>Properties of the loops\<close>

lemma compute_jobs_loop_append:
  "compute_jobs_loop E (xs @ ys) jobs =
     (case compute_jobs_loop E xs jobs of Inl e \<Rightarrow> Inl e | Inr js \<Rightarrow> compute_jobs_loop E ys js)"
  by (induction xs arbitrary: jobs) (auto split: option.splits sum.splits)

lemma compute_jobs_loop_ids:
  "compute_jobs_loop E ids jobs = Inr js \<Longrightarrow> map instance_id js = map instance_id jobs @ ids"
  by (induction ids arbitrary: jobs) (auto split: option.splits sum.splits)

lemma compute_jobs_loop_missing:
  "\<exists>i \<in> set ids. sweall E i = None \<Longrightarrow> \<exists>e. compute_jobs_loop E ids jobs = Inl e"
  by (induction ids arbitrary: jobs) (auto split: option.splits sum.splits)

lemma compute_jobs_loop_valid:
  "\<forall>i \<in> set ids. valid_identifier E i \<Longrightarrow> \<exists>js. compute_jobs_loop E ids jobs = Inr js"
  by (induction ids arbitrary: jobs) (auto simp: valid_identifier_def split: option.splits sum.splits)

lemma create_scripts_loop_append:
  "create_scripts_loop rt E a (xs @ ys) scripts =
     (case create_scripts_loop rt E a xs scripts of
        (effs, Inl e) \<Rightarrow> (effs, Inl e)
      | (effs, Inr ps) \<Rightarrow>
         (case create_scripts_loop rt E a ys ps of (effs', r) \<Rightarrow> (effs @ effs', r)))"
  by (induction xs arbitrary: scripts) (auto split: prod.splits sum.splits)

lemma create_script_path:
  "create_script rt E a j = (effs, Inr p) \<Longrightarrow>
     p = script_path_of a (instance_id j) \<and>
     (\<exists>text. effs = [Makedirs (instance_dir_of a (instance_id j)),
                     WriteFile (script_path_of a (instance_id j)) text,
                     Chmod (script_path_of a (instance_id j)) 493])"
  by (auto simp: create_script_def Let_def script_path_of_def instance_dir_of_def
      split: sum.splits option.splits)

lemma create_scripts_loop_ok:
  "create_scripts_loop rt E a jobs scripts = (effs, Inr out) \<Longrightarrow>
     out = scripts @ map (\<lambda>j. script_path_of a (instance_id j)) jobs \<and>
     (\<exists>texts. length texts = length jobs \<and>
        effs = concat (map (job_effects a) (zip (map instance_id jobs) texts)))"
proof (induction jobs arbitrary: scripts effs out)
  case Nil
  then show ?case by simp
next
  case (Cons j jobs)
  obtain e1 r1 where c: "create_script rt E a j = (e1, r1)" by (cases "create_script rt E a j")
  show ?case
  proof (cases r1)
    case (Inl e)
    with Cons.prems c show ?thesis by simp
  next
    case (Inr p)
    obtain e2 r2 where l: "create_scripts_loop rt E a jobs (scripts @ [p]) = (e2, r2)"
      by (cases "create_scripts_loop rt E a jobs (scripts @ [p])")
    from Cons.prems c Inr l have eq: "effs = e1 @ e2" "r2 = Inr out" by auto
    from create_script_path[OF c[unfolded Inr]] obtain content where
      p: "p = script_path_of a (instance_id j)" and e1: "e1 = job_effects a (instance_id j, content)"
      by (auto simp: job_effects_def)
    from Cons.IH[OF l[unfolded eq(2)]] obtain texts where
      out: "out = (scripts @ [p]) @ map (\<lambda>j. script_path_of a (instance_id j)) jobs"
      and len: "length texts = length jobs"
      and e2: "e2 = concat (map (job_effects a) (zip (map instance_id jobs) texts))"
      by blast
    have "length (content # texts) = length (j # jobs) \<and>
        effs = concat (map (job_effects a) (zip (map instance_id (j # jobs)) (content # texts)))"
      using len e1 e2 eq(1) by simp
    then have "\<exists>texts. length texts = length (j # jobs) \<and>
        effs = concat (map (job_effects a) (zip (map instance_id (j # jobs)) texts))"
      by blast
    moreover have "out = scripts @ map (\<lambda>j. script_path_of a (instance_id j)) (j # jobs)"
      using out p by simp
    ultimately show ?thesis by blast
  qed
qed

lemma create_scripts_loop_all_ok:
  "\<forall>j \<in> set jobs. \<exists>effs p. create_script rt E a j = (effs, Inr p) \<Longrightarrow>
   \<exists>effs out. create_scripts_loop rt E a jobs scripts = (effs, Inr out)"
proof (induction jobs arbitrary: scripts)
  case Nil
  then show ?case by simp
next
  case (Cons j jobs)
  from Cons.prems obtain e1 p where c: "create_script rt E a j = (e1, Inr p)" by auto
  from Cons.prems have "\<forall>j \<in> set jobs. \<exists>effs p. create_script rt E a j = (effs, Inr p)" by simp
  from Cons.IH[OF this, of "scripts @ [p]"] obtain e2 out where
    "create_scripts_loop rt E a jobs (scripts @ [p]) = (e2, Inr out)" by blast
  with c show ?case by simp
qed

section \<open>Properties of a batch\<close>

lemma valid_job_script:
  assumes "valid_identifier E (instance_id j)" and "command a = ''jedi'' \<or> command a = ''pylsp''"
  shows "\<exists>effs p. create_script rt E a j = (effs, Inr p)"
proof -
  from assms(1) obtain family inc where
    f: "reponame E (instance_id j) = Inr family" "INCLUDE family = Some inc"
    by (auto simp: valid_identifier_def split: sum.splits option.splits)
  from assms(2) obtain cmd where
    "str_format rt (dict_get DEFAULT_COMMAND_TEMPLATES (command a) (command a))
       (format_dict_of a j inc) = Inr cmd"
    using jedi_renders[of a rt j inc] pylsp_renders[of a rt j inc] by auto
  from create_script_Inr[OF f this] show ?thesis by blast
qed

lemma valid_batch_succeeds:
  assumes "\<forall>i \<in> set (instance_ids a). valid_identifier E i"
    and "command a = ''jedi'' \<or> command a = ''pylsp''"
  shows "\<exists>jobs effs scripts. compute_jobs E a = Inr jobs \<and>
           create_scripts rt E a jobs = (effs, Inr scripts)"
proof -
  from compute_jobs_loop_valid[OF assms(1), of "[]"] obtain jobs where
    cj: "compute_jobs E a = Inr jobs" by (auto simp: compute_jobs_def)
  then have ids: "map instance_id jobs = instance_ids a"
    using compute_jobs_loop_ids[of E "instance_ids a" "[]" jobs] by (simp add: compute_jobs_def)
  have "\<forall>j \<in> set jobs. valid_identifier E (instance_id j)"
  proof
    fix j assume "j \<in> set jobs"
    then have "instance_id j \<in> set (map instance_id jobs)" by simp
    with ids assms(1) show "valid_identifier E (instance_id j)" by simp
  qed
  then have "\<forall>j \<in> set jobs. \<exists>effs p. create_script rt E a j = (effs, Inr p)"
    using valid_job_script[OF _ assms(2)] by blast
  from create_scripts_loop_all_ok[OF this, of "[]"] cj show ?thesis
    by (auto simp: create_scripts_def)
qed

lemma scripts_of_jobs:
  assumes "compute_jobs E a = Inr jobs" and "create_scripts rt E a jobs = (effs, Inr scripts)"
  shows "scripts = map (script_path_of a) (instance_ids a)"
    and "\<exists>texts. length texts = length (instance_ids a) \<and>
           effs = concat (map (job_effects a) (zip (instance_ids a) texts))"
proof -
  have ids: "map instance_id jobs = instance_ids a"
    using compute_jobs_loop_ids[of E "instance_ids a" "[]" jobs] assms(1)
    by (simp add: compute_jobs_def)
  have len: "length jobs = length (instance_ids a)"
    using ids by (metis length_map)
  from create_scripts_loop_ok[OF assms(2)[unfolded create_scripts_def]]
  obtain texts where s: "scripts = map (\<lambda>j. script_path_of a (instance_id j)) jobs"
    and t: "length texts = length jobs"
      "effs = concat (map (job_effects a) (zip (map instance_id jobs) texts))"
    by auto
  have "map (\<lambda>j. script_path_of a (instance_id j)) jobs = map (script_path_of a) (map instance_id jobs)"
    by simp
  with s ids show "scripts = map (script_path_of a) (instance_ids a)" by simp
  from t ids len show "\<exists>texts. length texts = length (instance_ids a) \<and>
           effs = concat (map (job_effects a) (zip (instance_ids a) texts))" by auto
qed

lemma os_path_join_text:
  assumes "od \<noteq> []" "last od \<noteq> CHR ''/''" "i \<noteq> []" "hd i \<noteq> CHR ''/''" "last i \<noteq> CHR ''/''"
  shows "os_path_join (os_path_join od i) ''main.sh'' = od @ ''/'' @ i @ ''/main.sh''"
  using assms by (simp add: os_path_join_def)

text \<open>
  C6.  One script per identifier.  Whenever planning and generation succeed, the list of
  script paths returned has one entry per identifier, in the order of the identifiers and
  with duplicates kept; the entry for identifier \<open>i\<close> is
  \<^verbatim>\<open>os.path.join(os.path.join(outdir, i), "main.sh")\<close>; and the effects are, identifier by
  identifier in the same order, the creation of the directory, the writing of the script at
  that path and \<^verbatim>\<open>os.chmod(script_path, 0o755)\<close> (493), which marks it executable.  For valid
  identifiers and a registered command name, planning and generation do succeed.  The
  joined path is the text \<^verbatim>\<open><outdir>/<instance_id>/main.sh\<close> when the output directory is not
  empty and has no trailing slash and the identifier is not empty and has no leading or
  trailing slash.
\<close>

theorem one_script_per_identifier:
  "(compute_jobs E a = Inr jobs \<and> create_scripts rt E a jobs = (effs, Inr scripts) \<longrightarrow>
      length scripts = length (instance_ids a) \<and>
      scripts = map (\<lambda>i. os_path_join (os_path_join (outdir a) i) ''main.sh'') (instance_ids a) \<and>
      (\<exists>texts. length texts = length (instance_ids a) \<and>
         effs = concat (map (\<lambda>(i, content).
                   [Makedirs (os_path_join (outdir a) i),
                    WriteFile (os_path_join (os_path_join (outdir a) i) ''main.sh'') content,
                    Chmod (os_path_join (os_path_join (outdir a) i) ''main.sh'') 493])
                 (zip (instance_ids a) texts)))) \<and>
   ((\<forall>i \<in> set (instance_ids a). valid_identifier E i) \<and>
    (command a = ''jedi'' \<or> command a = ''pylsp'') \<longrightarrow>
      (\<exists>jobs effs scripts. compute_jobs E a = Inr jobs \<and>
         create_scripts rt E a jobs = (effs, Inr scripts))) \<and>
   (outdir a \<noteq> [] \<and> last (outdir a) \<noteq> CHR ''/'' \<and> i \<noteq> [] \<and> hd i \<noteq> CHR ''/'' \<and>
    last i \<noteq> CHR ''/'' \<longrightarrow>
      os_path_join (os_path_join (outdir a) i) ''main.sh'' = outdir a @ ''/'' @ i @ ''/main.sh'')"
proof (intro conjI impI)
  assume h: "compute_jobs E a = Inr jobs \<and> create_scripts rt E a jobs = (effs, Inr scripts)"
  have sp: "script_path_of a = (\<lambda>i. os_path_join (os_path_join (outdir a) i) ''main.sh'')"
    by (rule ext) (simp add: script_path_of_def)
  have je: "job_effects a = (\<lambda>(i, content).
                   [Makedirs (os_path_join (outdir a) i),
                    WriteFile (os_path_join (os_path_join (outdir a) i) ''main.sh'') content,
                    Chmod (os_path_join (os_path_join (outdir a) i) ''main.sh'') 493])"
    by (rule ext) (simp add: job_effects_def script_path_of_def instance_dir_of_def split: prod.splits)
  from scripts_of_jobs(1)[of E a jobs rt effs scripts] h
  show s: "scripts = map (\<lambda>i. os_path_join (os_path_join (outdir a) i) ''main.sh'') (instance_ids a)"
    by (simp add: sp)
  then show "length scripts = length (instance_ids a)" by simp
  from scripts_of_jobs(2)[of E a jobs rt effs scripts] h
  show "\<exists>texts. length texts = length (instance_ids a) \<and>
         effs = concat (map (\<lambda>(i, content).
                   [Makedirs (os_path_join (outdir a) i),
                    WriteFile (os_path_join (os_path_join (outdir a) i) ''main.sh'') content,
                    Chmod (os_path_join (os_path_join (outdir a) i) ''main.sh'') 493])
                 (zip (instance_ids a) texts))"
    by (simp add: je)
next
  assume "(\<forall>i \<in> set (instance_ids a). valid_identifier E i) \<and>
    (command a = ''jedi'' \<or> command a = ''pylsp'')"
  then show "\<exists>jobs effs scripts. compute_jobs E a = Inr jobs \<and>
         create_scripts rt E a jobs = (effs, Inr scripts)"
    using valid_batch_succeeds[of a E rt] by blast
next
  assume "outdir a \<noteq> [] \<and> last (outdir a) \<noteq> CHR ''/'' \<and> i \<noteq> [] \<and> hd i \<noteq> CHR ''/'' \<and>
    last i \<noteq> CHR ''/''"
  then show "os_path_join (os_path_join (outdir a) i) ''main.sh'' = outdir a @ ''/'' @ i @ ''/main.sh''"
    using os_path_join_text by blast
qed

lemma example_valid:
  "\<forall>i \<in> set (instance_ids args_seq). valid_identifier dz_example i"
  by (simp add: args_seq_def valid_identifier_def dz_example_def INCLUDE_def)

lemma example_jobs:
  "compute_jobs dz_example args_seq = Inr [job_django, job_sympy]"
  by (simp add: compute_jobs_def args_seq_def dz_example_def job_django_def job_sympy_def)

theorem one_script_per_identifier_witness:
  "compute_jobs dz_example args_seq = Inr [job_django, job_sympy] \<and>
   snd (create_scripts rt_example dz_example args_seq [job_django, job_sympy]) =
     Inr [''sweout/django__django-11099/main.sh'', ''sweout/sympy__sympy-20590/main.sh'']"
proof -
  have c: "command args_seq = ''jedi'' \<or> command args_seq = ''pylsp''"
    by (simp add: args_seq_def)
  note t = one_script_per_identifier[of dz_example args_seq _ rt_example]
  from t[of "[]" "[]" "[]" "[]"] example_valid c obtain jobs effs scripts where
    r: "compute_jobs dz_example args_seq = Inr jobs"
       "create_scripts rt_example dz_example args_seq jobs = (effs, Inr scripts)"
    by blast
  from r(1) example_jobs have j: "jobs = [job_django, job_sympy]" by simp
  from t[of jobs effs scripts "[]"] r have
    s: "scripts = map (\<lambda>i. os_path_join (os_path_join (outdir args_seq) i) ''main.sh'')
          (instance_ids args_seq)"
    by blast
  with r(2) j example_jobs show ?thesis
    by (simp add: args_seq_def os_path_join_def)
qed

text \<open>
  C10.  In parallel mode \<^verbatim>\<open>create_top_script\<close> reads \<^verbatim>\<open>scripts[-1]\<close>, which raises
  \<^verbatim>\<open>IndexError\<close> on the empty list.  With at least one identifier on the command line
  (\<^verbatim>\<open>nargs="+"\<close>), whenever planning and generation succeed the list handed to
  \<^verbatim>\<open>create_top_script\<close> is not empty, so the aggregate script is written without error and
  \<^verbatim>\<open>main\<close> returns normally.
\<close>

theorem parallel_last_index_safe:
  "(parallel a \<longrightarrow>
      snd (create_top_script a []) = Inl (IndexError ''list index out of range'')) \<and>
   (instance_ids a \<noteq> [] \<and> compute_jobs E a = Inr jobs \<and>
    create_scripts rt E a jobs = (effs, Inr scripts) \<longrightarrow>
      scripts \<noteq> [] \<and> snd (create_top_script a scripts) = Inr () \<and>
      snd (main rt E a) = Inr ())"
proof (intro conjI impI)
  assume "parallel a"
  then show "snd (create_top_script a []) = Inl (IndexError ''list index out of range'')"
    by (simp add: create_top_script_def Let_def)
next
  assume h: "instance_ids a \<noteq> [] \<and> compute_jobs E a = Inr jobs \<and>
    create_scripts rt E a jobs = (effs, Inr scripts)"
  from scripts_of_jobs(1)[of E a jobs rt effs scripts] h
  show ne: "scripts \<noteq> []" by simp
  then show top: "snd (create_top_script a scripts) = Inr ()"
    by (simp add: create_top_script_def Let_def)
  with h show "snd (main rt E a) = Inr ()"
    by (auto simp: main_def split: prod.splits)
qed

theorem parallel_last_index_safe_witness:
  "snd (create_top_script args_par []) = Inl (IndexError ''list index out of range'') \<and>
   snd (main rt_example dz_example args_par) = Inr ()"
proof -
  have v: "\<forall>i \<in> set (instance_ids args_par). valid_identifier dz_example i"
    using example_valid by (simp add: args_par_def)
  have c: "command args_par = ''jedi'' \<or> command args_par = ''pylsp''"
    by (simp add: args_par_def args_seq_def)
  from valid_batch_succeeds[OF v c, of rt_example] obtain jobs effs scripts where
    r: "compute_jobs dz_example args_par = Inr jobs"
       "create_scripts rt_example dz_example args_par jobs = (effs, Inr scripts)"
    by blast
  have ne: "instance_ids args_par \<noteq> []" and p: "parallel args_par"
    by (simp_all add: args_par_def args_seq_def)
  from parallel_last_index_safe[of args_par dz_example jobs rt_example effs scripts] r ne p
  show ?thesis by simp
qed

section \<open>Resolution errors\<close>

lemma create_script_no_include:
  "reponame E (instance_id j) = Inr family \<Longrightarrow> INCLUDE family = None \<Longrightarrow>
   create_script rt E a j = ([], Inl (KeyError family))"
  by (simp add: create_script_def Let_def)

lemma acme_jobs:
  "compute_jobs dz_example args_acme = Inr ([job_django] @ job_acme # [])"
  by (simp add: compute_jobs_def args_acme_def args_seq_def dz_example_def job_django_def
      job_acme_def)

lemma acme_first:
  "create_scripts rt_example dz_example args_acme [job_django] =
     ([Makedirs ''sweout/django__django-11099'',
       WriteFile ''sweout/django__django-11099/main.sh''
         (isolation_script ''sweout'' ''django__django-11099'' ''/repos/django__django-11099''
            ''d26b242''
            (jedi_command ''sweout'' ''django__django-11099'' ''/repos/django__django-11099''
               ''django'')),
       Chmod ''sweout/django__django-11099/main.sh'' 493],
      Inr [''sweout/django__django-11099/main.sh''])"
proof -
  have c: "command args_acme = ''jedi''" by (simp add: args_acme_def args_seq_def)
  show ?thesis
    using create_script_Inr[OF example_family(1,2) jedi_renders[OF c], of rt_example]
    by (simp add: create_scripts_def instance_dir_of_def script_path_of_def os_path_join_def
        job_django_def args_acme_def args_seq_def)
qed

lemma main_acme:
  "main rt_example dz_example args_acme =
     ([Makedirs ''sweout/django__django-11099'',
       WriteFile ''sweout/django__django-11099/main.sh''
         (isolation_script ''sweout'' ''django__django-11099'' ''/repos/django__django-11099''
            ''d26b242''
            (jedi_command ''sweout'' ''django__django-11099'' ''/repos/django__django-11099''
               ''django'')),
       Chmod ''sweout/django__django-11099/main.sh'' 493],
      Inl (KeyError ''acme''))"
proof -
  have a: "create_script rt_example dz_example args_acme job_acme = ([], Inl (KeyError ''acme''))"
    using create_script_no_include[of dz_example job_acme "''acme''"] example_family(5,6)
    by (simp add: job_acme_def)
  have "create_scripts rt_example dz_example args_acme ([job_django] @ job_acme # []) =
     ([Makedirs ''sweout/django__django-11099'',
       WriteFile ''sweout/django__django-11099/main.sh''
         (isolation_script ''sweout'' ''django__django-11099'' ''/repos/django__django-11099''
            ''d26b242''
            (jedi_command ''sweout'' ''django__django-11099'' ''/repos/django__django-11099''
               ''django'')),
       Chmod ''sweout/django__django-11099/main.sh'' 493],
      Inl (KeyError ''acme''))"
    using acme_first a
    unfolding create_scripts_def create_scripts_loop_append by simp
  then show ?thesis using acme_jobs by (simp add: main_def)
qed

text \<open>
  C1, as stated, fails: the include table is consulted inside the loop of
  \<^verbatim>\<open>create_scripts\<close>, job by job, not during planning.  For the identifiers
  \<^verbatim>\<open>django__django-11099\<close> and \<^verbatim>\<open>acme__acme-1\<close> (family \<^verbatim>\<open>acme\<close>, not in the table) the
  run ends with \<^verbatim>\<open>KeyError\<close> for \<^verbatim>\<open>acme\<close>, after the script of the first job was written.
\<close>

theorem include_miss_after_write:
  "snd (main rt_example dz_example args_acme) = Inl (KeyError ''acme'') \<and>
   WriteFile ''sweout/django__django-11099/main.sh''
     (isolation_script ''sweout'' ''django__django-11099'' ''/repos/django__django-11099''
        ''d26b242''
        (jedi_command ''sweout'' ''django__django-11099'' ''/repos/django__django-11099''
           ''django''))
     \<in> set (fst (main rt_example dz_example args_acme))"
  by (simp add: main_acme)

text \<open>
  C1, amended.  An identifier absent from the catalog makes \<^verbatim>\<open>main\<close> raise during planning,
  before any effect: no directory is created and no file written; when the identifiers
  before it are valid, the error is \<^verbatim>\<open>KeyError\<close> for that identifier.  A family absent from the
  include table makes \<^verbatim>\<open>main\<close> raise \<^verbatim>\<open>KeyError\<close> for the family when the loop of
  \<^verbatim>\<open>create_scripts\<close> reaches that job: the effects of the run are those of the jobs before
  it (for each, its directory, its complete script and the \<^verbatim>\<open>chmod\<close>), and nothing is created
  or written for that job or any later one.
\<close>

theorem resolution_errors:
  "((\<exists>i \<in> set (instance_ids a). sweall E i = None) \<longrightarrow>
      (\<exists>e. main rt E a = ([], Inl e))) \<and>
   (instance_ids a = pre @ i # post \<and> (\<forall>k \<in> set pre. valid_identifier E k) \<and>
    sweall E i = None \<longrightarrow>
      main rt E a = ([], Inl (KeyError i))) \<and>
   (compute_jobs E a = Inr (js1 @ j # js2) \<and> create_scripts rt E a js1 = (effs, Inr ps) \<and>
    reponame E (instance_id j) = Inr family \<and> INCLUDE family = None \<longrightarrow>
      main rt E a = (effs, Inl (KeyError family)) \<and>
      (\<exists>texts. length texts = length js1 \<and>
         effs = concat (map (job_effects a) (zip (map instance_id js1) texts))))"
proof (intro conjI impI)
  assume "\<exists>i \<in> set (instance_ids a). sweall E i = None"
  from compute_jobs_loop_missing[OF this, of "[]"] show "\<exists>e. main rt E a = ([], Inl e)"
    by (auto simp: main_def compute_jobs_def)
next
  assume h: "instance_ids a = pre @ i # post \<and> (\<forall>k \<in> set pre. valid_identifier E k) \<and>
    sweall E i = None"
  then obtain js where "compute_jobs_loop E pre [] = Inr js"
    using compute_jobs_loop_valid[of pre E "[]"] by blast
  with h have "compute_jobs E a = Inl (KeyError i)"
    by (simp add: compute_jobs_def compute_jobs_loop_append)
  then show "main rt E a = ([], Inl (KeyError i))" by (simp add: main_def)
next
  assume h: "compute_jobs E a = Inr (js1 @ j # js2) \<and> create_scripts rt E a js1 = (effs, Inr ps) \<and>
    reponame E (instance_id j) = Inr family \<and> INCLUDE family = None"
  then have c: "create_script rt E a j = ([], Inl (KeyError family))"
    using create_script_no_include by blast
  have "create_scripts rt E a (js1 @ j # js2) = (effs, Inl (KeyError family))"
    using h c unfolding create_scripts_def create_scripts_loop_append by simp
  with h show "main rt E a = (effs, Inl (KeyError family))" by (simp add: main_def)
  from h create_scripts_loop_ok[of rt E a js1 "[]" effs ps]
  show "\<exists>texts. length texts = length js1 \<and>
         effs = concat (map (job_effects a) (zip (map instance_id js1) texts))"
    by (simp add: create_scripts_def)
qed

theorem resolution_errors_witness:
  "main rt_example dz_example args_unknown = ([], Inl (KeyError ''nosuch__id-7'')) \<and>
   main rt_example dz_example args_acme =
     ([Makedirs ''sweout/django__django-11099'',
       WriteFile ''sweout/django__django-11099/main.sh''
         (isolation_script ''sweout'' ''django__django-11099'' ''/repos/django__django-11099''
            ''d26b242''
            (jedi_command ''sweout'' ''django__django-11099'' ''/repos/django__django-11099''
               ''django'')),
       Chmod ''sweout/django__django-11099/main.sh'' 493],
      Inl (KeyError ''acme''))"
proof -
  have u: "instance_ids args_unknown = [''django__django-11099''] @ ''nosuch__id-7'' # []"
    "\<forall>k \<in> set [''django__django-11099'']. valid_identifier dz_example k"
    "sweall dz_example ''nosuch__id-7'' = None"
    by (simp_all add: args_unknown_def args_seq_def valid_identifier_def dz_example_def INCLUDE_def)
  have 1: "main rt_example dz_example args_unknown = ([], Inl (KeyError ''nosuch__id-7''))"
    using resolution_errors[where a=args_unknown and E=dz_example and rt=rt_example
        and pre="[''django__django-11099'']" and i="''nosuch__id-7''" and post="[]"] u
    by blast
  have f: "reponame dz_example (instance_id job_acme) = Inr ''acme''"
    using example_family(5) by (simp add: job_acme_def)
  have 2: "main rt_example dz_example args_acme =
     ([Makedirs ''sweout/django__django-11099'',
       WriteFile ''sweout/django__django-11099/main.sh''
         (isolation_script ''sweout'' ''django__django-11099'' ''/repos/django__django-11099''
            ''d26b242''
            (jedi_command ''sweout'' ''django__django-11099'' ''/repos/django__django-11099''
               ''django'')),
       Chmod ''sweout/django__django-11099/main.sh'' 493],
      Inl (KeyError ''acme''))"
    using resolution_errors[where a=args_acme and E=dz_example and rt=rt_example
        and ?js1.0="[job_django]" and j=job_acme and ?js2.0="[]"
        and ps="[''sweout/django__django-11099/main.sh'']" and family="''acme''"]
      acme_jobs acme_first f example_family(6) by blast
  show ?thesis using 1 2 by simp
qed

section \<open>Determinism of the script text\<close>













end
